theory Spec2Isabelle
  imports Complex_Main
begin

section \<open>Python values\<close>

text \<open>
  The two programs (\<^verbatim>\<open>viewer/colorhymn_rich.py\<close>, the static renderer, and
  \<^verbatim>\<open>viewer/colorhymn_viewer.py\<close>, the Textual viewer) work on whatever
  \<^verbatim>\<open>json.loads\<close> returns, so the document is modelled as an untyped JSON value:
  a Python \<^verbatim>\<open>dict\<close> is an association list (of distinct keys, in insertion order)
  looked up with \<open>map_of\<close>, a Python \<^verbatim>\<open>list\<close> a list, a Python \<^verbatim>\<open>int\<close> an
  unbounded \<open>int\<close>. A \<open>char\<close> stands for one character of a Python \<^verbatim>\<open>str\<close> (code
  points below 256); floats are finite.
\<close>

datatype json =
    JNull
  | JBool bool
  | JInt int
  | JFloat rat
  | JStr string
  | JArr "json list"
  | JObj "(string \<times> json) list"

text \<open>
  The exceptions the two programs can meet. \<open>ValueError\<close> carries the message the source
  builds; \<open>UnpackError n\<close> is the \<^verbatim>\<open>ValueError\<close> of unpacking \<open>n\<close> values into three
  names, \<open>InvalidLiteral s\<close> the \<^verbatim>\<open>ValueError\<close> of \<^verbatim>\<open>int(s, 16)\<close>; \<open>OSError\<close> is a failure to
  start the subprocess.
\<close>

datatype exn =
    TimeoutExpired
  | OSError string
  | JSONDecodeError string
  | ValueError string
  | UnpackError nat
  | InvalidLiteral string
  | KeyError string
  | TypeError

text \<open>\<^verbatim>\<open>d[key]\<close> with a string key: only a dict has string keys.\<close>

fun subscript :: "json \<Rightarrow> string \<Rightarrow> exn + json" where
  "subscript (JObj kvs) k = (case map_of kvs k of Some v \<Rightarrow> Inr v | None \<Rightarrow> Inl (KeyError k))"
| "subscript _ k = Inl TypeError"

text \<open>Iteration (\<^verbatim>\<open>for x in v\<close>, unpacking): a list gives its items, a string its
  characters, a dict its keys; nothing else is iterable.\<close>

fun py_iter :: "json \<Rightarrow> exn + json list" where
  "py_iter (JArr xs) = Inr xs"
| "py_iter (JStr s) = Inr (map (\<lambda>c. JStr [c]) s)"
| "py_iter (JObj kvs) = Inr (map (\<lambda>kv. JStr (fst kv)) kvs)"
| "py_iter _ = Inl TypeError"

text \<open>\<^verbatim>\<open>a, b, c = token\<close>.\<close>

definition unpack3 :: "json \<Rightarrow> exn + (json \<times> json \<times> json)" where
  "unpack3 token =
     (case py_iter token of
        Inl e \<Rightarrow> Inl e
      | Inr [a, b, c] \<Rightarrow> Inr (a, b, c)
      | Inr xs \<Rightarrow> Inl (UnpackError (length xs)))"

text \<open>Truth value (\<^verbatim>\<open>if v:\<close>).\<close>

fun truthy :: "json \<Rightarrow> bool" where
  "truthy JNull = False"
| "truthy (JBool b) = b"
| "truthy (JInt n) = (n \<noteq> 0)"
| "truthy (JFloat r) = (r \<noteq> 0)"
| "truthy (JStr s) = (s \<noteq> [])"
| "truthy (JArr xs) = (xs \<noteq> [])"
| "truthy (JObj kvs) = (kvs \<noteq> [])"

text \<open>\<^verbatim>\<open>v[a:b]\<close> with \<open>0 \<le> a \<le> b\<close>: strings and lists slice (clipping at the end),
  nothing else does (Python 3.11: a dict raises \<^verbatim>\<open>TypeError\<close>, a slice is unhashable).\<close>

fun py_slice :: "json \<Rightarrow> nat \<Rightarrow> nat \<Rightarrow> exn + json" where
  "py_slice (JStr s) a b = Inr (JStr (take (b - a) (drop a s)))"
| "py_slice (JArr xs) a b = Inr (JArr (take (b - a) (drop a xs)))"
| "py_slice _ a b = Inl TypeError"

subsection \<open>Decimal output\<close>

definition digit_char :: "nat \<Rightarrow> char" where
  "digit_char d = char_of (48 + d)"

fun str_nat :: "nat \<Rightarrow> string" where
  "str_nat n = (if n < 10 then [digit_char n] else str_nat (n div 10) @ [digit_char (n mod 10)])"

declare str_nat.simps [simp del]

text \<open>\<^verbatim>\<open>str(i)\<close> for an int.\<close>

definition str_int :: "int \<Rightarrow> string" where
  "str_int i = (if i < 0 then CHR ''-'' # str_nat (nat (- i)) else str_nat (nat i))"

text \<open>\<^verbatim>\<open>f"{i:5d}"\<close>: right-aligned in a field of at least five characters.\<close>

definition fmt_5d :: "int \<Rightarrow> string" where
  "fmt_5d i = replicate (5 - length (str_int i)) CHR '' '' @ str_int i"

text \<open>\<^verbatim>\<open>f"{v}"\<close>, that is \<^verbatim>\<open>str(v)\<close>. For floats, lists and dicts the text is Python's
  \<^verbatim>\<open>repr\<close>, taken as the parameter \<open>repr\<close>.\<close>

fun py_str :: "(json \<Rightarrow> string) \<Rightarrow> json \<Rightarrow> string" where
  "py_str repr (JStr s) = s"
| "py_str repr (JInt n) = str_int n"
| "py_str repr JNull = ''None''"
| "py_str repr (JBool b) = (if b then ''True'' else ''False'')"
| "py_str repr v = repr v"

subsection \<open>\<^verbatim>\<open>int(s, 16)\<close>\<close>

text \<open>
  CPython 3.11 on a string of characters below 256: whitespace around the literal is
  skipped (tab to carriage return, space, and the two non-ASCII spaces U+0085 and
  U+00A0), then an optional sign, an optional \<^verbatim>\<open>0x\<close> prefix (with one underscore allowed
  after it), then hexadecimal digits with single underscores between them.
\<close>

definition is_space :: "char \<Rightarrow> bool" where
  "is_space c = (let n = (of_char c :: nat) in (9 \<le> n \<and> n \<le> 13) \<or> n = 32 \<or> n = 133 \<or> n = 160)"

definition hex_val :: "char \<Rightarrow> nat option" where
  "hex_val c =
     (let n = (of_char c :: nat) in
      if 48 \<le> n \<and> n \<le> 57 then Some (n - 48)
      else if 97 \<le> n \<and> n \<le> 102 then Some (n - 87)
      else if 65 \<le> n \<and> n \<le> 70 then Some (n - 55)
      else None)"

fun scan_digits :: "int \<Rightarrow> bool \<Rightarrow> string \<Rightarrow> (int \<times> string) option" where
  "scan_digits acc prev_us [] = (if prev_us then None else Some (acc, []))"
| "scan_digits acc prev_us (c # cs) =
     (if c = CHR ''_'' then (if prev_us then None else scan_digits acc True cs)
      else case hex_val c of
             Some d \<Rightarrow> scan_digits (16 * acc + int d) False cs
           | None \<Rightarrow> (if prev_us then None else Some (acc, c # cs)))"

definition strip_sign :: "string \<Rightarrow> bool \<times> string" where
  "strip_sign s =
     (case s of
        c # cs \<Rightarrow> (if c = CHR ''-'' then (True, cs) else if c = CHR ''+'' then (False, cs) else (False, s))
      | [] \<Rightarrow> (False, s))"

definition strip_0x :: "string \<Rightarrow> string" where
  "strip_0x s =
     (case s of
        z # x # r \<Rightarrow>
          (if z = CHR ''0'' \<and> (x = CHR ''x'' \<or> x = CHR ''X'')
           then (case r of u # r' \<Rightarrow> (if u = CHR ''_'' then r' else r) | [] \<Rightarrow> r)
           else s)
      | _ \<Rightarrow> s)"

definition py_int16 :: "string \<Rightarrow> int option" where
  "py_int16 s =
     (let (neg, s1) = strip_sign (dropWhile is_space s);
          body = strip_0x s1
      in case body of
           [] \<Rightarrow> None
         | c # _ \<Rightarrow>
             (if hex_val c = None then None
              else case scan_digits 0 False body of
                     None \<Rightarrow> None
                   | Some (v, rest) \<Rightarrow>
                       (if list_all is_space rest then Some (if neg then - v else v) else None)))"

text \<open>\<^verbatim>\<open>int(v, 16)\<close> on a value: only a string can be converted with an explicit base.\<close>

fun int_base16 :: "json \<Rightarrow> exn + int" where
  "int_base16 (JStr s) = (case py_int16 s of Some n \<Rightarrow> Inr n | None \<Rightarrow> Inl (InvalidLiteral s))"
| "int_base16 _ = Inl TypeError"

section \<open>The semantic palette\<close>

text \<open>\<^verbatim>\<open>d.get(key, default)\<close> on a dict from strings to strings: a list or dict key is
  unhashable, any other key that is not a string of the dict gives the default.\<close>

fun dict_get :: "(string \<times> string) list \<Rightarrow> json \<Rightarrow> string \<Rightarrow> exn + string" where
  "dict_get d (JStr s) dflt = Inr (case map_of d s of Some c \<Rightarrow> c | None \<Rightarrow> dflt)"
| "dict_get d (JArr xs) dflt = Inl TypeError"
| "dict_get d (JObj kvs) dflt = Inl TypeError"
| "dict_get d _ dflt = Inr dflt"

text \<open>The dict literal of \<^verbatim>\<open>render_rich\<close> (colorhymn_rich.py, lines 53-57).\<close>

definition temp_style_table :: "(string \<times> string) list" where
  "temp_style_table =
     [(''cool'', ''cyan''), (''neutral'', ''white''), (''elevated'', ''yellow''),
      (''uneasy'', ''yellow''), (''troubled'', ''orange1''), (''warm'', ''orange1''),
      (''critical'', ''red'')]"

text \<open>\<^verbatim>\<open>temp_colors\<close> of \<^verbatim>\<open>ColorhymnApp.render_log\<close> (colorhymn_viewer.py, lines 169-177).\<close>

definition temp_colors :: "(string \<times> string) list" where
  "temp_colors =
     [(''cool'', ''cyan''),
      (''neutral'', ''white''),
      (''elevated'', ''yellow''),
      (''uneasy'', ''yellow''),
      (''troubled'', ''orange1''),
      (''warm'', ''orange1''),
      (''critical'', ''red'')]"

section \<open>The classifier subprocess\<close>

text \<open>
  \<^verbatim>\<open>subprocess.run([...], capture_output=True, text=True, cwd=..., timeout=30)\<close> is a
  call into the environment: the model passes the request the source builds and receives
  one of the three things \<^verbatim>\<open>subprocess.run\<close> can do: return a completed process,
  raise \<^verbatim>\<open>TimeoutExpired\<close>, or fail to start the program.
\<close>

record request =
  args :: "string list"
  cwd :: string
  timeout :: nat

record completed =
  returncode :: int
  stdout :: string
  stderr :: string

datatype run_outcome = Completed completed | Expired | Failed string

text \<open>\<^verbatim>\<open>s.find(c)\<close>: the index of the first occurrence, or -1.\<close>

definition str_find :: "string \<Rightarrow> char \<Rightarrow> int" where
  "str_find s c = (if c \<in> set s then int (length (takeWhile (\<lambda>x. x \<noteq> c) s)) else - 1)"

definition bindE :: "exn + 'a \<Rightarrow> ('a \<Rightarrow> exn + 'b) \<Rightarrow> exn + 'b" where
  "bindE m f = (case m of Inl e \<Rightarrow> Inl e | Inr x \<Rightarrow> f x)"

text \<open>
  \<^verbatim>\<open>colorize_file\<close> of colorhymn_rich.py. \<open>run\<close> is the environment, \<open>loads\<close> is
  \<^verbatim>\<open>json.loads\<close> (\<open>Inl\<close> the message of its \<^verbatim>\<open>JSONDecodeError\<close>), \<open>install_root\<close> is
  \<^verbatim>\<open>Path(__file__).parent.parent\<close>. The return code is never read.
\<close>

definition colorize_file ::
  "(request \<Rightarrow> run_outcome) \<Rightarrow> (string \<Rightarrow> string + json) \<Rightarrow> string \<Rightarrow> string \<Rightarrow> exn + json" where
  "colorize_file run loads install_root file_path =
     (case run \<lparr>args = [''mix'', ''colorize'', file_path], cwd = install_root, timeout = 30\<rparr> of
        Expired \<Rightarrow> Inl TimeoutExpired
      | Failed m \<Rightarrow> Inl (OSError m)
      | Completed result \<Rightarrow>
          (let json_start = str_find (stdout result) CHR ''{'' in
           if json_start = - 1 then Inl (ValueError (''No JSON output: '' @ stderr result))
           else case loads (drop (nat json_start) (stdout result)) of
                  Inl m \<Rightarrow> Inl (JSONDecodeError m)
                | Inr d \<Rightarrow> Inr d))"

section \<open>Rendering\<close>

text \<open>
  A Rich \<^verbatim>\<open>Text\<close> is the sequence of \<^verbatim>\<open>append(content, style=...)\<close> calls made on it
  (\<^verbatim>\<open>Text(s, style=x)\<close> is its one styled run). \<^verbatim>\<open>Text.append\<close> raises \<^verbatim>\<open>TypeError\<close>
  for content that is not a \<^verbatim>\<open>str\<close> and stores the style as it is given; what Rich
  and Textual do with the recorded runs afterwards (reading a style, laying out a row) is
  outside the model. The two box-drawing characters of the header literals, U+2501 and
  U+2502, are written as their UTF-8 bytes.
\<close>

datatype span = Span (content: json) (style: "json option")

type_synonym rich_text = "span list"

text \<open>\<^verbatim>\<open>text.append(content, style=sty)\<close>: the run it adds.\<close>

fun text_append :: "json \<Rightarrow> json option \<Rightarrow> exn + span" where
  "text_append (JStr s) sty = Inr (Span (JStr s) sty)"
| "text_append v sty = Inl TypeError"

definition hbar :: string where
  "hbar = [CHR 0xE2, CHR 0x94, CHR 0x81]"

definition vbar :: string where
  "vbar = [CHR 0xE2, CHR 0x94, CHR 0x82]"

abbreviation ESC :: char where
  "ESC \<equiv> CHR 0x1B"

text \<open>\<^verbatim>\<open>for i, line_tokens in enumerate(lines, i0): emit(build(i, line_tokens))\<close>: the
  items emitted, and the exception that ended the loop, if any.\<close>

fun for_each_line :: "(int \<Rightarrow> json \<Rightarrow> exn + 'o) \<Rightarrow> int \<Rightarrow> json list \<Rightarrow> 'o list \<times> exn option" where
  "for_each_line build i [] = ([], None)"
| "for_each_line build i (l # ls) =
     (case build i l of
        Inl e \<Rightarrow> ([], Some e)
      | Inr x \<Rightarrow> (let (out, r) = for_each_line build (i + 1) ls in (x # out, r)))"

text \<open>\<^verbatim>\<open>for token in line_tokens: _, value, color = token; text.append(value, style=color)\<close>,
  the same loop in \<^verbatim>\<open>render_rich\<close> and in \<^verbatim>\<open>render_log\<close>.\<close>

fun append_tokens :: "json list \<Rightarrow> exn + rich_text" where
  "append_tokens [] = Inr []"
| "append_tokens (token # ts) =
     (case unpack3 token of
        Inl e \<Rightarrow> Inl e
      | Inr (kind, val, color) \<Rightarrow>
          (case text_append val (Some color) of
             Inl e \<Rightarrow> Inl e
           | Inr run \<Rightarrow>
               (case append_tokens ts of
                  Inl e \<Rightarrow> Inl e
                | Inr r \<Rightarrow> Inr (run # r))))"

definition number_prefix :: "int \<Rightarrow> span" where
  "number_prefix i = Span (JStr (fmt_5d i @ '' '')) (Some (JStr ''dim''))"

subsection \<open>colorhymn_rich.py\<close>

definition rich_header :: "(json \<Rightarrow> string) \<Rightarrow> json \<Rightarrow> exn + rich_text" where
  "rich_header repr meta =
     bindE (subscript meta ''filename'') (\<lambda>filename.
     bindE (subscript meta ''line_count'') (\<lambda>line_count.
     bindE (subscript meta ''temperature'') (\<lambda>temperature.
     bindE (dict_get temp_style_table temperature ''white'') (\<lambda>temp_style.
     bindE (text_append temperature (Some (JStr temp_style))) (\<lambda>temperature_run.
     bindE (subscript meta ''mood'') (\<lambda>mood.
       let mood_style = temp_style in
     bindE (text_append mood (Some (JStr mood_style))) (\<lambda>mood_run.
       Inr [Span (JStr (hbar @ hbar @ hbar @ '' '' @ py_str repr filename @ '' '')) (Some (JStr ''bold'')),
            Span (JStr (vbar @ '' '' @ py_str repr line_count @ '' lines '')) (Some (JStr ''dim'')),
            Span (JStr (vbar @ '' temp: '')) None,
            temperature_run,
            Span (JStr ('' '' @ vbar @ '' mood: '')) None,
            mood_run,
            Span (JStr ('' '' @ hbar @ hbar @ hbar)) None])))))))"

definition rich_line :: "int \<Rightarrow> json \<Rightarrow> exn + rich_text" where
  "rich_line i line_tokens =
     bindE (py_iter line_tokens) (\<lambda>ts.
     bindE (append_tokens ts) (\<lambda>r. Inr (number_prefix i # r)))"

text \<open>\<^verbatim>\<open>render_rich\<close>: the texts printed on the console, in order (\<open>[]\<close> is the blank
  \<^verbatim>\<open>console.print()\<close>), and the exception raised, if any.\<close>

definition render_rich :: "(json \<Rightarrow> string) \<Rightarrow> json \<Rightarrow> rich_text list \<times> exn option" where
  "render_rich repr doc =
     (case subscript doc ''metadata'' of
        Inl e \<Rightarrow> ([], Some e)
      | Inr meta \<Rightarrow>
          (case rich_header repr meta of
             Inl e \<Rightarrow> ([], Some e)
           | Inr header \<Rightarrow>
               (case bindE (subscript doc ''lines'') py_iter of
                  Inl e \<Rightarrow> ([header, []], Some e)
                | Inr ls \<Rightarrow>
                    (let (out, r) = for_each_line rich_line 1 ls in (header # [] # out, r)))))"

definition ansi_header :: "(json \<Rightarrow> string) \<Rightarrow> json \<Rightarrow> exn + string" where
  "ansi_header repr meta =
     bindE (subscript meta ''filename'') (\<lambda>filename.
     bindE (subscript meta ''line_count'') (\<lambda>line_count.
     bindE (subscript meta ''temperature'') (\<lambda>temperature.
     bindE (subscript meta ''mood'') (\<lambda>mood.
       Inr (hbar @ hbar @ hbar @ '' '' @ py_str repr filename @ '' '' @ vbar @ '' '' @
            py_str repr line_count @ '' lines '' @ vbar @ '' temp: '' @ py_str repr temperature @
            '' '' @ vbar @ '' mood: '' @ py_str repr mood @ '' '' @ hbar @ hbar @ hbar @ [CHR 0x0A])))))"

text \<open>One token of the raw fallback: the f-string of line 90.\<close>

definition ansi_token :: "(json \<Rightarrow> string) \<Rightarrow> json \<Rightarrow> exn + string" where
  "ansi_token repr token =
     bindE (unpack3 token) (\<lambda>(kind, val, color).
     bindE (bindE (py_slice color 1 3) int_base16) (\<lambda>r.
     bindE (bindE (py_slice color 3 5) int_base16) (\<lambda>g.
     bindE (bindE (py_slice color 5 7) int_base16) (\<lambda>b.
       Inr (ESC # ''[38;2;'' @ str_int r @ '';'' @ str_int g @ '';'' @ str_int b @ ''m'' @
            py_str repr val @ ESC # ''[0m'')))))"

fun ansi_tokens :: "(json \<Rightarrow> string) \<Rightarrow> json list \<Rightarrow> exn + string list" where
  "ansi_tokens repr [] = Inr []"
| "ansi_tokens repr (token # ts) =
     (case ansi_token repr token of
        Inl e \<Rightarrow> Inl e
      | Inr p \<Rightarrow> (case ansi_tokens repr ts of Inl e \<Rightarrow> Inl e | Inr ps \<Rightarrow> Inr (p # ps)))"

definition ansi_line :: "(json \<Rightarrow> string) \<Rightarrow> int \<Rightarrow> json \<Rightarrow> exn + string" where
  "ansi_line repr i line_tokens =
     bindE (py_iter line_tokens) (\<lambda>ts.
     bindE (ansi_tokens repr ts) (\<lambda>parts.
       Inr (concat ((ESC # ''[2m'' @ fmt_5d i @ ESC # ''[0m '') # parts))))"

text \<open>\<^verbatim>\<open>render_ansi\<close>: the strings given to \<^verbatim>\<open>print\<close>, in order, and the exception
  raised, if any.\<close>

definition render_ansi :: "(json \<Rightarrow> string) \<Rightarrow> json \<Rightarrow> string list \<times> exn option" where
  "render_ansi repr doc =
     (case subscript doc ''metadata'' of
        Inl e \<Rightarrow> ([], Some e)
      | Inr meta \<Rightarrow>
          (case ansi_header repr meta of
             Inl e \<Rightarrow> ([], Some e)
           | Inr header \<Rightarrow>
               (case bindE (subscript doc ''lines'') py_iter of
                  Inl e \<Rightarrow> ([header], Some e)
                | Inr ls \<Rightarrow>
                    (let (out, r) = for_each_line (ansi_line repr) 1 ls in (header # out, r)))))"

text \<open>What \<^verbatim>\<open>main\<close> leaves behind: the console and standard-output prints, the lines on
  standard error, and the exit code. A message is a string, or the f-string of a prefix
  and an exception.\<close>

datatype message = Plain string | WithExn string exn

record process_result =
  console_out :: "rich_text list"
  stdout_out :: "string list"
  stderr_out :: "message list"
  exit_code :: int

text \<open>\<^verbatim>\<open>main\<close> of colorhymn_rich.py with the module's import block: \<open>rich_available\<close>
  is whether \<^verbatim>\<open>import rich\<close> succeeded. The module is taken as loaded: without Rich the
  annotation \<^verbatim>\<open>console: Console\<close> of \<^verbatim>\<open>render_rich\<close> names nothing, which only an
  interpreter that does not evaluate annotations at definition time (Python 3.14) accepts.\<close>

definition main_rich ::
  "bool \<Rightarrow> (request \<Rightarrow> run_outcome) \<Rightarrow> (string \<Rightarrow> string + json) \<Rightarrow> (json \<Rightarrow> string) \<Rightarrow>
   string \<Rightarrow> string list \<Rightarrow> process_result" where
  "main_rich rich_available run loads repr install_root argv =
     (let notice = (if rich_available then [] else [Plain ''Rich not installed. Using raw ANSI output.'']) in
      if length argv < 2 then
        \<lparr>console_out = [], stdout_out = [],
         stderr_out = notice @ [Plain ''Usage: colorhymn_rich.py <logfile>'',
                                Plain ''       cat logfile | colorhymn_rich.py --stdin''],
         exit_code = 1\<rparr>
      else
        (case colorize_file run loads install_root (argv ! 1) of
           Inl e \<Rightarrow>
             \<lparr>console_out = [], stdout_out = [], stderr_out = notice @ [WithExn ''Error: '' e],
              exit_code = 1\<rparr>
         | Inr doc \<Rightarrow>
             (if rich_available then
                (case render_rich repr doc of
                   (out, None) \<Rightarrow>
                     \<lparr>console_out = out, stdout_out = [], stderr_out = notice, exit_code = 0\<rparr>
                 | (out, Some e) \<Rightarrow>
                     \<lparr>console_out = out, stdout_out = [],
                      stderr_out = notice @ [WithExn ''Error: '' e], exit_code = 1\<rparr>)
              else
                (case render_ansi repr doc of
                   (out, None) \<Rightarrow>
                     \<lparr>console_out = [], stdout_out = out, stderr_out = notice, exit_code = 0\<rparr>
                 | (out, Some e) \<Rightarrow>
                     \<lparr>console_out = [], stdout_out = out,
                      stderr_out = notice @ [WithExn ''Error: '' e], exit_code = 1\<rparr>))))"

subsection \<open>colorhymn_viewer.py\<close>

text \<open>
  Modelled from the spec: the scroll position of Textual's \<^verbatim>\<open>ScrollableContainer\<close> and
  its methods \<^verbatim>\<open>scroll_home\<close>, \<^verbatim>\<open>scroll_end\<close>, \<^verbatim>\<open>scroll_relative\<close>, \<^verbatim>\<open>scroll_page_down\<close>
  and \<^verbatim>\<open>scroll_page_up\<close>, which the viewer's actions call and which are not under src/.
  The spec's \<^verbatim>\<open>ViewportState\<close> is \<open>{scroll_offset, viewport_height}\<close>; top sets the
  offset to 0, bottom to \<open>max(0, line_count - viewport_height)\<close>, a relative scroll and a
  page scroll add their distance and clamp to \<open>[0, max_offset]\<close>.
\<close>

record viewport =
  scroll_offset :: int
  viewport_height :: int

definition max_offset :: "nat \<Rightarrow> viewport \<Rightarrow> int" where
  "max_offset line_count v = max 0 (int line_count - viewport_height v)"

definition clamp_offset :: "nat \<Rightarrow> viewport \<Rightarrow> int \<Rightarrow> int" where
  "clamp_offset line_count v y = max 0 (min (max_offset line_count v) y)"

definition scroll_home :: "nat \<Rightarrow> viewport \<Rightarrow> viewport" where
  "scroll_home line_count v = v\<lparr>scroll_offset := 0\<rparr>"

definition scroll_end :: "nat \<Rightarrow> viewport \<Rightarrow> viewport" where
  "scroll_end line_count v = v\<lparr>scroll_offset := max_offset line_count v\<rparr>"

definition scroll_relative :: "nat \<Rightarrow> int \<Rightarrow> viewport \<Rightarrow> viewport" where
  "scroll_relative line_count y v =
     v\<lparr>scroll_offset := clamp_offset line_count v (scroll_offset v + y)\<rparr>"

definition scroll_page_down :: "nat \<Rightarrow> viewport \<Rightarrow> viewport" where
  "scroll_page_down line_count v =
     v\<lparr>scroll_offset := clamp_offset line_count v (scroll_offset v + viewport_height v)\<rparr>"

definition scroll_page_up :: "nat \<Rightarrow> viewport \<Rightarrow> viewport" where
  "scroll_page_up line_count v =
     v\<lparr>scroll_offset := clamp_offset line_count v (scroll_offset v - viewport_height v)\<rparr>"

text \<open>
  The state of \<^verbatim>\<open>ColorhymnApp\<close>: its attributes \<^verbatim>\<open>file_path\<close> and \<^verbatim>\<open>data\<close>, the content
  of the \<^verbatim>\<open>#info-bar\<close> widget, the widgets mounted in \<^verbatim>\<open>#log-container\<close> and its
  scroll position, the notifications shown, and whether the application has exited.
\<close>

datatype severity = Sev_error | Sev_warning

record app =
  file_path :: string
  data :: "json option"
  info_bar :: "rich_text option"
  rows :: "rich_text list"
  log_view :: viewport
  notifications :: "(message \<times> severity) list"
  exited :: bool

definition notify :: "message \<Rightarrow> severity \<Rightarrow> app \<Rightarrow> app" where
  "notify m sev st = st\<lparr>notifications := notifications st @ [(m, sev)]\<rparr>"

text \<open>The info bar of \<^verbatim>\<open>render_log\<close> (lines 163-183).\<close>

definition info_text :: "(json \<Rightarrow> string) \<Rightarrow> json \<Rightarrow> exn + rich_text" where
  "info_text repr meta =
     bindE (subscript meta ''filename'') (\<lambda>filename.
     bindE (subscript meta ''line_count'') (\<lambda>line_count.
     bindE (subscript meta ''temperature'') (\<lambda>temperature.
     bindE (dict_get temp_colors temperature ''white'') (\<lambda>temp_color.
     bindE (text_append temperature (Some (JStr temp_color))) (\<lambda>temperature_run.
     bindE (subscript meta ''mood'') (\<lambda>mood.
     bindE (dict_get temp_colors mood ''white'') (\<lambda>mood_color.
     bindE (text_append mood (Some (JStr mood_color))) (\<lambda>mood_run.
       Inr [Span (JStr ('' '' @ py_str repr filename @ '' '')) (Some (JStr ''bold'')),
            Span (JStr (vbar @ '' '' @ py_str repr line_count @ '' lines '')) (Some (JStr ''dim'')),
            Span (JStr (vbar @ '' temp: '')) (Some (JStr ''dim'')),
            temperature_run,
            Span (JStr ('' '' @ vbar @ '' mood: '')) (Some (JStr ''dim'')),
            mood_run]))))))))"

text \<open>The body of the loop of \<^verbatim>\<open>render_log\<close> (lines 190-200): the text of the
  \<^verbatim>\<open>Static\<close> it mounts.\<close>

definition viewer_line :: "int \<Rightarrow> json \<Rightarrow> exn + rich_text" where
  "viewer_line i line_tokens =
     (if truthy line_tokens then
        bindE (py_iter line_tokens) (\<lambda>ts.
        bindE (append_tokens ts) (\<lambda>r. Inr (number_prefix i # r)))
      else Inr [number_prefix i])"

text \<open>\<^verbatim>\<open>render_log\<close>: the new state, and the exception raised, if any.\<close>

definition render_log :: "(json \<Rightarrow> string) \<Rightarrow> app \<Rightarrow> app \<times> exn option" where
  "render_log repr st =
     (case data st of
        None \<Rightarrow> (st, None)
      | Some doc \<Rightarrow>
          (if \<not> truthy doc then (st, None)
           else case subscript doc ''metadata'' of
                  Inl e \<Rightarrow> (st, Some e)
                | Inr meta \<Rightarrow>
                    (case info_text repr meta of
                       Inl e \<Rightarrow> (st, Some e)
                     | Inr info \<Rightarrow>
                         (let st1 = st\<lparr>info_bar := Some info\<rparr> in
                          case bindE (subscript doc ''lines'') py_iter of
                            Inl e \<Rightarrow> (st1, Some e)
                          | Inr ls \<Rightarrow>
                              (let (out, r) = for_each_line viewer_line 1 ls
                               in (st1\<lparr>rows := rows st1 @ out\<rparr>, r))))))"

text \<open>\<^verbatim>\<open>load_file\<close> (lines 122-152), with its three exception handlers.\<close>

definition load_file ::
  "(request \<Rightarrow> run_outcome) \<Rightarrow> (string \<Rightarrow> string + json) \<Rightarrow> (json \<Rightarrow> string) \<Rightarrow> string \<Rightarrow>
   app \<Rightarrow> app" where
  "load_file run loads repr install_root st =
     (case run \<lparr>args = [''mix'', ''colorize'', file_path st], cwd = install_root, timeout = 30\<rparr> of
        Expired \<Rightarrow> notify (Plain ''Colorhymn timed out'') Sev_error st
      | Failed m \<Rightarrow> notify (WithExn ''Error: '' (OSError m)) Sev_error st
      | Completed result \<Rightarrow>
          (if returncode result \<noteq> 0 then
             notify (Plain (''Error: '' @ stderr result)) Sev_error st
           else
             (let json_start = str_find (stdout result) CHR ''{'' in
              if json_start = - 1 then
                notify (Plain ''No JSON output from colorhymn'') Sev_error st
              else
                (case loads (drop (nat json_start) (stdout result)) of
                   Inl m \<Rightarrow> notify (Plain (''JSON parse error: '' @ m)) Sev_error st
                 | Inr doc \<Rightarrow>
                     (case render_log repr (st\<lparr>data := Some doc\<rparr>) of
                        (st', None) \<Rightarrow> st'
                      | (st', Some e) \<Rightarrow> notify (WithExn ''Error: '' e) Sev_error st')))))"

text \<open>\<^verbatim>\<open>__init__\<close> and \<^verbatim>\<open>on_mount\<close>; \<open>h\<close> is the height Textual gives the container.\<close>

definition init_app :: "string \<Rightarrow> int \<Rightarrow> app" where
  "init_app path h =
     \<lparr>file_path = path, data = None, info_bar = None, rows = [],
      log_view = \<lparr>scroll_offset = 0, viewport_height = h\<rparr>, notifications = [], exited = False\<rparr>"

definition on_mount ::
  "(request \<Rightarrow> run_outcome) \<Rightarrow> (string \<Rightarrow> string + json) \<Rightarrow> (json \<Rightarrow> string) \<Rightarrow> string \<Rightarrow>
   app \<Rightarrow> app" where
  "on_mount run loads repr install_root st = load_file run loads repr install_root st"

text \<open>The actions (lines 202-227). Each scroll action calls one method of the container.\<close>

definition action_scroll_top :: "app \<Rightarrow> app" where
  "action_scroll_top st = st\<lparr>log_view := scroll_home (length (rows st)) (log_view st)\<rparr>"

definition action_scroll_bottom :: "app \<Rightarrow> app" where
  "action_scroll_bottom st = st\<lparr>log_view := scroll_end (length (rows st)) (log_view st)\<rparr>"

definition action_scroll_down :: "app \<Rightarrow> app" where
  "action_scroll_down st = st\<lparr>log_view := scroll_relative (length (rows st)) 1 (log_view st)\<rparr>"

definition action_scroll_up :: "app \<Rightarrow> app" where
  "action_scroll_up st = st\<lparr>log_view := scroll_relative (length (rows st)) (- 1) (log_view st)\<rparr>"

definition action_page_down :: "app \<Rightarrow> app" where
  "action_page_down st = st\<lparr>log_view := scroll_page_down (length (rows st)) (log_view st)\<rparr>"

definition action_page_up :: "app \<Rightarrow> app" where
  "action_page_up st = st\<lparr>log_view := scroll_page_up (length (rows st)) (log_view st)\<rparr>"

definition action_search :: "app \<Rightarrow> app" where
  "action_search st = notify (Plain ''Search not yet implemented'') Sev_warning st"

text \<open>Modelled from the spec: Textual's built-in \<^verbatim>\<open>quit\<close> action, which is not under
  src/: quit transitions to Exited.\<close>

definition action_quit :: "app \<Rightarrow> app" where
  "action_quit st = st\<lparr>exited := True\<rparr>"

text \<open>\<^verbatim>\<open>BINDINGS\<close> (lines 96-105), and the method each action name runs.\<close>

datatype action =
  Quit | Scroll_top | Scroll_bottom | Search | Scroll_down | Scroll_up | Page_down | Page_up

definition BINDINGS :: "(string \<times> action) list" where
  "BINDINGS =
     [(''q'', Quit), (''g'', Scroll_top), (''G'', Scroll_bottom), (''/'', Search),
      (''j'', Scroll_down), (''k'', Scroll_up), (''ctrl+d'', Page_down), (''ctrl+u'', Page_up)]"

fun run_action :: "action \<Rightarrow> app \<Rightarrow> app" where
  "run_action Quit st = action_quit st"
| "run_action Scroll_top st = action_scroll_top st"
| "run_action Scroll_bottom st = action_scroll_bottom st"
| "run_action Search st = action_search st"
| "run_action Scroll_down st = action_scroll_down st"
| "run_action Scroll_up st = action_scroll_up st"
| "run_action Page_down st = action_page_down st"
| "run_action Page_up st = action_page_up st"

text \<open>A key press: a bound key runs its action, any other key does nothing.\<close>

definition press :: "string \<Rightarrow> app \<Rightarrow> app" where
  "press key st = (case map_of BINDINGS key of Some a \<Rightarrow> run_action a st | None \<Rightarrow> st)"

section \<open>Visible text\<close>

text \<open>
  The escape-stripped text of a terminal line: every SGR sequence, \<open>ESC [\<close>, digits and
  semicolons, \<open>m\<close>, is removed; every other character stays.
\<close>

definition is_sgr_param :: "char \<Rightarrow> bool" where
  "is_sgr_param c = (c = CHR '';'' \<or> (48 \<le> (of_char c :: nat) \<and> (of_char c :: nat) \<le> 57))"

definition skip_sgr :: "string \<Rightarrow> string option" where
  "skip_sgr s =
     (case s of
        [] \<Rightarrow> None
      | c # r \<Rightarrow>
          (if c = CHR ''['' then
             (case dropWhile is_sgr_param r of
                [] \<Rightarrow> None
              | m # r' \<Rightarrow> (if m = CHR ''m'' then Some r' else None))
           else None))"

function strip_ansi :: "string \<Rightarrow> string" where
  "strip_ansi [] = []"
| "strip_ansi (c # cs) =
     (if c = ESC then
        (case skip_sgr cs of
           Some rest \<Rightarrow> strip_ansi rest
         | None \<Rightarrow> c # strip_ansi cs)
      else c # strip_ansi cs)"
  by pat_completeness auto
termination
proof (relation "measure length")
  fix c :: char and cs rest :: string
  assume "skip_sgr cs = Some rest"
  then obtain r where cs: "cs = CHR ''['' # r" and dw: "dropWhile is_sgr_param r = CHR ''m'' # rest"
    by (auto simp: skip_sgr_def split: list.splits if_splits)
  have "length (dropWhile is_sgr_param r) \<le> length r"
    by (rule length_dropWhile_le)
  with cs dw show "(rest, c # cs) \<in> measure length"
    by simp
qed simp_all

section \<open>Documents of the classifier contract\<close>

text \<open>
  The inputs the theorems quantify over: a document as the classifier's response
  describes it (metadata with four fields, lines of three-element tokens), and the JSON
  value \<^verbatim>\<open>json.loads\<close> makes of the response.
\<close>

record token =
  tok_kind :: string
  tok_text :: string
  tok_color :: string

record metadata =
  filename :: string
  line_count :: int
  temperature :: string
  mood :: string

record document =
  doc_meta :: metadata
  doc_lines :: "token list list"

definition token_json :: "token \<Rightarrow> json" where
  "token_json t = JArr [JStr (tok_kind t), JStr (tok_text t), JStr (tok_color t)]"

definition metadata_json :: "metadata \<Rightarrow> json" where
  "metadata_json m =
     JObj [(''filename'', JStr (filename m)), (''line_count'', JInt (line_count m)),
           (''temperature'', JStr (temperature m)), (''mood'', JStr (mood m))]"

definition document_json :: "document \<Rightarrow> json" where
  "document_json d =
     JObj [(''metadata'', metadata_json (doc_meta d)),
           (''lines'', JArr (map (\<lambda>l. JArr (map token_json l)) (doc_lines d)))]"

text \<open>A colour of the contract: \<^verbatim>\<open>#\<close> and six hexadecimal digits; the value of the two
  digits at positions \<open>k\<close> and \<open>k + 1\<close>.\<close>

fun is_hex_color :: "string \<Rightarrow> bool" where
  "is_hex_color [h, a, b, c, d, e, f] =
     (h = CHR ''#'' \<and> list_all (\<lambda>x. hex_val x \<noteq> None) [a, b, c, d, e, f])"
| "is_hex_color _ = False"

definition hex_digit :: "char \<Rightarrow> nat" where
  "hex_digit c = (case hex_val c of Some d \<Rightarrow> d | None \<Rightarrow> 0)"

definition hex_byte :: "string \<Rightarrow> nat \<Rightarrow> nat" where
  "hex_byte s k = 16 * hex_digit (s ! k) + hex_digit (s ! (k + 1))"


definition token_run :: "token \<Rightarrow> string" where
  "token_run t =
     ESC # ''[38;2;'' @ str_nat (hex_byte (tok_color t) 1) @ '';'' @
     str_nat (hex_byte (tok_color t) 3) @ '';'' @ str_nat (hex_byte (tok_color t) 5) @ ''m'' @
     tok_text t @ ESC # ''[0m''"


definition raw_row :: "int \<Rightarrow> token list \<Rightarrow> string" where
  "raw_row i l = ESC # ''[2m'' @ fmt_5d i @ ESC # ''[0m '' @ concat (map token_run l)"

text \<open>Python's \<^verbatim>\<open>enumerate(xs, i)\<close>.\<close>

fun py_enumerate :: "int \<Rightarrow> 'a list \<Rightarrow> (int \<times> 'a) list" where
  "py_enumerate i [] = []"
| "py_enumerate i (x # xs) = (i, x) # py_enumerate (i + 1) xs"

subsection \<open>Sample inputs\<close>

text \<open>The scenario of the spec: three lines of one token each, coloured \<^verbatim>\<open>#FF0000\<close>,
  \<^verbatim>\<open>#00FF00\<close>, \<^verbatim>\<open>#0000FF\<close>, temperature critical, mood cool.\<close>

definition sample_document :: document where
  "sample_document =
     \<lparr>doc_meta = \<lparr>filename = ''app.log'', line_count = 3, temperature = ''critical'', mood = ''cool''\<rparr>,
      doc_lines = [[\<lparr>tok_kind = ''word'', tok_text = ''red'', tok_color = ''#FF0000''\<rparr>],
                   [\<lparr>tok_kind = ''word'', tok_text = ''green'', tok_color = ''#00FF00''\<rparr>],
                   [\<lparr>tok_kind = ''word'', tok_text = ''blue'', tok_color = ''#0000FF''\<rparr>]]\<rparr>"

text \<open>A response that states 10 lines and has 8, the fifth of them blank.\<close>

definition eight_line_document :: document where
  "eight_line_document =
     \<lparr>doc_meta = \<lparr>filename = ''app.log'', line_count = 10, temperature = ''warm'', mood = ''uneasy''\<rparr>,
      doc_lines = replicate 4 [\<lparr>tok_kind = ''word'', tok_text = ''ok'', tok_color = ''#a0B1c2''\<rparr>] @ [[]] @
                  replicate 3 [\<lparr>tok_kind = ''num'', tok_text = ''4'', tok_color = ''#000000''\<rparr>,
                               \<lparr>tok_kind = ''word'', tok_text = ''2'', tok_color = ''#ffffff''\<rparr>]\<rparr>"

text \<open>A token text that carries an escape sequence of its own.\<close>

definition escape_document :: document where
  "escape_document =
     \<lparr>doc_meta = \<lparr>filename = ''app.log'', line_count = 1, temperature = ''cool'', mood = ''cool''\<rparr>,
      doc_lines = [[\<lparr>tok_kind = ''word'', tok_text = ESC # ''[31mX'', tok_color = ''#000000''\<rparr>]]\<rparr>"

text \<open>A token of two elements, and a colour that is not hexadecimal.\<close>

definition two_element_doc :: json where
  "two_element_doc =
     JObj [(''metadata'', metadata_json (doc_meta sample_document)),
           (''lines'', JArr [JArr [JArr [JStr ''word'', JStr ''red'', JStr ''#FF0000'']],
                             JArr [JArr [JStr ''green'', JStr ''#00FF00'']]])]"

definition bad_color_doc :: json where
  "bad_color_doc =
     JObj [(''metadata'', metadata_json (doc_meta sample_document)),
           (''lines'', JArr [JArr [JArr [JStr ''word'', JStr ''red'', JStr ''#GG0000'']]])]"

text \<open>The viewer with a hundred rows mounted in a container twenty rows high.\<close>

definition hundred_rows :: app where
  "hundred_rows = (init_app ''app.log'' 20)\<lparr>rows := replicate 100 []\<rparr>"

section \<open>Theorems\<close>

subsection \<open>Basic facts\<close>

lemma bindE_simps [simp]: "bindE (Inl e) f = Inl e" "bindE (Inr x) f = f x"
  by (simp_all add: bindE_def)

lemma hex_val_char:
  assumes "hex_val c = Some x"
  shows "c \<noteq> CHR ''_''" "c \<noteq> CHR ''-''" "c \<noteq> CHR ''+''" "c \<noteq> CHR ''x''" "c \<noteq> CHR ''X''"
    "\<not> is_space c" "c \<noteq> ESC"
  using assms by (auto simp: hex_val_def is_space_def Let_def split: if_splits)

lemma py_int16_hex_pair:
  assumes a: "hex_val a = Some x" and b: "hex_val b = Some y"
  shows "py_int16 [a, b] = Some (int (16 * x + y))"
  using hex_val_char [OF a] hex_val_char [OF b] a b
  by (simp add: py_int16_def strip_sign_def strip_0x_def)

lemma str_int_nat: "str_int (int n) = str_nat n"
  by (simp add: str_int_def)

lemma str_find_absent: "c \<notin> set s \<Longrightarrow> str_find s c = - 1"
  by (simp add: str_find_def)



subsection \<open>The loop over the lines\<close>

lemma for_each_line_map:
  assumes "\<And>i l. l \<in> set ls \<Longrightarrow> build i (g l) = Inr (f i l)"
  shows "for_each_line build i0 (map g ls) = (map (\<lambda>(i, l). f i l) (py_enumerate i0 ls), None)"
  using assms by (induction ls arbitrary: i0) simp_all

subsection \<open>Tokens of the contract\<close>

lemma unpack3_token_json:
  "unpack3 (token_json t) = Inr (JStr (tok_kind t), JStr (tok_text t), JStr (tok_color t))"
  by (simp add: unpack3_def token_json_def)




lemma ansi_token_contract:
  assumes "is_hex_color (tok_color t)"
  shows "ansi_token repr (token_json t) = Inr (token_run t)"
proof -
  from assms obtain h a b c d e f where col: "tok_color t = [h, a, b, c, d, e, f]"
    by (auto elim: is_hex_color.elims)
  with assms obtain va vb vc vd ve vf where v:
    "hex_val a = Some va" "hex_val b = Some vb" "hex_val c = Some vc"
    "hex_val d = Some vd" "hex_val e = Some ve" "hex_val f = Some vf"
    by auto
  have "py_int16 [a, b] = Some (int (hex_byte (tok_color t) 1))"
    "py_int16 [c, d] = Some (int (hex_byte (tok_color t) 3))"
    "py_int16 [e, f] = Some (int (hex_byte (tok_color t) 5))"
    using v by (simp_all add: py_int16_hex_pair hex_byte_def hex_digit_def col)
  then show ?thesis
    by (simp add: ansi_token_def unpack3_token_json col token_run_def str_int_nat)
qed

lemma ansi_tokens_contract:
  "\<forall>t\<in>set l. is_hex_color (tok_color t) \<Longrightarrow> ansi_tokens repr (map token_json l) = Inr (map token_run l)"
  by (induction l) (simp_all add: ansi_token_contract)

lemma ansi_line_contract:
  "\<forall>t\<in>set l. is_hex_color (tok_color t) \<Longrightarrow> ansi_line repr i (JArr (map token_json l)) = Inr (raw_row i l)"
  by (simp add: ansi_line_def ansi_tokens_contract raw_row_def)

subsection \<open>Documents of the contract\<close>

lemma subscript_document_json [simp]:
  "subscript (document_json d) ''metadata'' = Inr (metadata_json (doc_meta d))"
  "subscript (document_json d) ''lines'' = Inr (JArr (map (\<lambda>l. JArr (map token_json l)) (doc_lines d)))"
  by (simp_all add: document_json_def)

lemma subscript_metadata_json [simp]:
  "subscript (metadata_json m) ''filename'' = Inr (JStr (filename m))"
  "subscript (metadata_json m) ''line_count'' = Inr (JInt (line_count m))"
  "subscript (metadata_json m) ''temperature'' = Inr (JStr (temperature m))"
  "subscript (metadata_json m) ''mood'' = Inr (JStr (mood m))"
  by (simp_all add: metadata_json_def)

lemma truthy_document_json [simp]: "truthy (document_json d)"
  by (simp add: document_json_def)



lemma ansi_header_ok: "\<exists>h. ansi_header repr (metadata_json m) = Inr h"
  by (simp add: ansi_header_def)






lemma render_ansi_contract:
  assumes "\<forall>l\<in>set (doc_lines d). \<forall>t\<in>set l. is_hex_color (tok_color t)"
  shows "\<exists>header. ansi_header repr (metadata_json (doc_meta d)) = Inr header \<and>
     render_ansi repr (document_json d) =
       (header # map (\<lambda>(i, l). raw_row i l) (py_enumerate 1 (doc_lines d)), None)"
proof -
  obtain header where h: "ansi_header repr (metadata_json (doc_meta d)) = Inr header"
    using ansi_header_ok by blast
  have "for_each_line (ansi_line repr) 1 (map (\<lambda>l. JArr (map token_json l)) (doc_lines d)) =
      (map (\<lambda>(i, l). raw_row i l) (py_enumerate 1 (doc_lines d)), None)"
    using assms by (intro for_each_line_map ansi_line_contract) simp
  with h show ?thesis
    by (simp add: render_ansi_def)
qed

subsection \<open>Rows and the line count\<close>

lemma py_enumerate_length [simp]: "length (py_enumerate i xs) = length xs"
  by (induction xs arbitrary: i) simp_all

lemma py_enumerate_nth: "k < length xs \<Longrightarrow> py_enumerate i xs ! k = (i + int k, xs ! k)"
proof (induction xs arbitrary: i k)
  case Nil
  then show ?case by simp
next
  case (Cons x xs)
  then show ?case
    by (cases k) (simp_all add: algebra_simps)
qed



subsection \<open>Escape sequences\<close>

lemma digit_char_code: "d < 10 \<Longrightarrow> (of_char (digit_char d) :: nat) = 48 + d"
  by (simp add: digit_char_def)

lemma str_nat_digits: "c \<in> set (str_nat n) \<Longrightarrow> 48 \<le> (of_char c :: nat) \<and> (of_char c :: nat) \<le> 57"
proof (induction n rule: str_nat.induct)
  case (1 n)
  show ?case
  proof (cases "n < 10")
    case True
    with "1.prems" show ?thesis
      by (simp add: str_nat.simps [of n] digit_char_code)
  next
    case False
    with "1.prems" have "c \<in> set (str_nat (n div 10)) \<or> c = digit_char (n mod 10)"
      by (auto simp: str_nat.simps [of n])
    with False "1.IH" show ?thesis
      by (auto simp: digit_char_code)
  qed
qed

lemma str_nat_params: "list_all is_sgr_param (str_nat n)"
  using str_nat_digits by (auto simp: list_all_iff is_sgr_param_def)

lemma str_nat_no_esc: "ESC \<notin> set (str_nat n)"
  using str_nat_digits [of ESC n] by auto

lemma fmt_5d_no_esc: "ESC \<notin> set (fmt_5d i)"
  by (auto simp: fmt_5d_def str_int_def str_nat_no_esc)

lemma strip_ansi_plain: "ESC \<notin> set s \<Longrightarrow> strip_ansi (s @ rest) = s @ strip_ansi rest"
  by (induction s) auto

lemma skip_sgr_params:
  "list_all is_sgr_param ps \<Longrightarrow> skip_sgr (CHR ''['' # ps @ CHR ''m'' # rest) = Some rest"
  by (simp add: skip_sgr_def dropWhile_append2 list_all_iff is_sgr_param_def)

lemma strip_ansi_sgr:
  "list_all is_sgr_param ps \<Longrightarrow> strip_ansi (ESC # CHR ''['' # ps @ CHR ''m'' # rest) = strip_ansi rest"
  by (simp add: skip_sgr_params)

lemma strip_ansi_token_run:
  assumes "ESC \<notin> set (tok_text t)"
  shows "strip_ansi (token_run t @ rest) = tok_text t @ strip_ansi rest"
proof -
  let ?ps = "''38;2;'' @ str_nat (hex_byte (tok_color t) 1) @ '';'' @
     str_nat (hex_byte (tok_color t) 3) @ '';'' @ str_nat (hex_byte (tok_color t) 5)"
  have ps: "list_all is_sgr_param ?ps"
    using str_nat_params by (simp add: is_sgr_param_def)
  have "token_run t @ rest =
      ESC # CHR ''['' # ?ps @ CHR ''m'' # (tok_text t @ ESC # CHR ''['' # ''0'' @ CHR ''m'' # rest)"
    by (simp add: token_run_def)
  then have "strip_ansi (token_run t @ rest) =
      strip_ansi (tok_text t @ ESC # CHR ''['' # ''0'' @ CHR ''m'' # rest)"
    using strip_ansi_sgr [OF ps] by simp
  also have "\<dots> = tok_text t @ strip_ansi (ESC # CHR ''['' # ''0'' @ CHR ''m'' # rest)"
    using assms by (rule strip_ansi_plain)
  also have "strip_ansi (ESC # CHR ''['' # ''0'' @ CHR ''m'' # rest) = strip_ansi rest"
    by (rule strip_ansi_sgr) (simp add: is_sgr_param_def)
  finally show ?thesis .
qed

lemma strip_ansi_token_runs:
  "\<forall>t\<in>set l. ESC \<notin> set (tok_text t) \<Longrightarrow>
     strip_ansi (concat (map token_run l) @ rest) = concat (map tok_text l) @ strip_ansi rest"
  by (induction l) (simp_all add: strip_ansi_token_run)

lemma strip_ansi_raw_row:
  assumes "\<forall>t\<in>set l. ESC \<notin> set (tok_text t)"
  shows "strip_ansi (raw_row i l) = fmt_5d i @ '' '' @ concat (map tok_text l)"
proof -
  have "raw_row i l = ESC # CHR ''['' # ''2'' @ CHR ''m'' #
      (fmt_5d i @ ESC # CHR ''['' # ''0'' @ CHR ''m'' # (CHR '' '' # concat (map token_run l) @ []))"
    by (simp add: raw_row_def)
  then have "strip_ansi (raw_row i l) =
      strip_ansi (fmt_5d i @ ESC # CHR ''['' # ''0'' @ CHR ''m'' # (CHR '' '' # concat (map token_run l) @ []))"
    using strip_ansi_sgr [of "''2''"] by (simp add: is_sgr_param_def)
  also have "\<dots> = fmt_5d i @ strip_ansi (ESC # CHR ''['' # ''0'' @ CHR ''m'' # (CHR '' '' # concat (map token_run l) @ []))"
    using fmt_5d_no_esc by (rule strip_ansi_plain)
  also have "strip_ansi (ESC # CHR ''['' # ''0'' @ CHR ''m'' # (CHR '' '' # concat (map token_run l) @ [])) =
      strip_ansi (CHR '' '' # concat (map token_run l) @ [])"
    by (rule strip_ansi_sgr) (simp add: is_sgr_param_def)
  also have "\<dots> = CHR '' '' # strip_ansi (concat (map token_run l) @ [])"
    by simp
  also have "strip_ansi (concat (map token_run l) @ []) = concat (map tok_text l) @ strip_ansi []"
    using assms by (rule strip_ansi_token_runs)
  finally show ?thesis
    by simp
qed

subsection \<open>Tokens that cannot be unpacked\<close>

lemma for_each_line_raises:
  assumes "l \<in> set ls" and "\<And>i. \<exists>e. build i l = Inl e"
  shows "snd (for_each_line build i0 ls) \<noteq> None \<and> length (fst (for_each_line build i0 ls)) < length ls"
  using assms(1)
proof (induction ls arbitrary: i0)
  case Nil
  then show ?case by simp
next
  case (Cons x ls)
  show ?case
  proof (cases "build i0 x")
    case (Inl e)
    then show ?thesis by simp
  next
    case (Inr y)
    with assms(2) [of i0] have "x \<noteq> l"
      by auto
    with Cons.prems have "l \<in> set ls"
      by simp
    from Cons.IH [OF this, of "i0 + 1"] Inr show ?thesis
      by (auto split: prod.splits)
  qed
qed

lemma unpack3_wrong_arity: "length xs \<noteq> 3 \<Longrightarrow> unpack3 (JArr xs) = Inl (UnpackError (length xs))"
  by (auto simp: unpack3_def split: list.splits)

lemma append_tokens_raises:
  "t \<in> set ts \<Longrightarrow> unpack3 t = Inl e \<Longrightarrow> \<exists>e'. append_tokens ts = Inl e'"
  by (induction ts) (auto split: sum.splits)

lemma ansi_tokens_raises:
  "t \<in> set ts \<Longrightarrow> unpack3 t = Inl e \<Longrightarrow> \<exists>e'. ansi_tokens repr ts = Inl e'"
  by (induction ts) (auto simp: ansi_token_def split: sum.splits)

lemma line_raises:
  assumes "JArr xs \<in> set ts" and "length xs \<noteq> 3"
  shows "\<exists>e. rich_line i (JArr ts) = Inl e" "\<exists>e. viewer_line i (JArr ts) = Inl e"
    "\<exists>e. ansi_line repr i (JArr ts) = Inl e"
proof -
  have u: "unpack3 (JArr xs) = Inl (UnpackError (length xs))"
    using assms(2) by (rule unpack3_wrong_arity)
  from append_tokens_raises [OF assms(1) u] obtain e where e: "append_tokens ts = Inl e"
    by blast
  from ansi_tokens_raises [OF assms(1) u] obtain e' where e': "ansi_tokens repr ts = Inl e'"
    by blast
  from assms(1) have "ts \<noteq> []"
    by auto
  then show "\<exists>e. rich_line i (JArr ts) = Inl e" "\<exists>e. viewer_line i (JArr ts) = Inl e"
    "\<exists>e. ansi_line repr i (JArr ts) = Inl e"
    by (simp_all add: rich_line_def viewer_line_def ansi_line_def e e')
qed

lemma subscript_truthy: "subscript doc k = Inr v \<Longrightarrow> truthy doc"
  by (cases doc) (auto split: option.splits)

subsection \<open>The viewer's state\<close>

lemma notify_fields [simp]:
  "notifications (notify m sev st) = notifications st @ [(m, sev)]"
  "exited (notify m sev st) = exited st"
  "rows (notify m sev st) = rows st"
  "log_view (notify m sev st) = log_view st"
  by (simp_all add: notify_def)

lemmas nav_defs = action_scroll_top_def action_scroll_bottom_def action_scroll_down_def
  action_scroll_up_def action_page_down_def action_page_up_def scroll_home_def scroll_end_def
  scroll_relative_def scroll_page_down_def scroll_page_up_def clamp_offset_def


section \<open>The claims\<close>

text \<open>
  C9. The semantic-colour resolution is total on strings: in both programs the lookup
  \<^verbatim>\<open>.get(name, "white")\<close> returns (never raises), gives each of the seven names cool,
  neutral, elevated, uneasy, troubled, warm, critical its palette colour, and gives every
  other string the default \<^verbatim>\<open>white\<close>.
\<close>

theorem palette_total:
  "dict_get temp_style_table (JStr s) ''white'' = dict_get temp_colors (JStr s) ''white'' \<and>
   dict_get temp_colors (JStr s) ''white'' =
     Inr (if s = ''cool'' then ''cyan''
          else if s = ''neutral'' then ''white''
          else if s = ''elevated'' then ''yellow''
          else if s = ''uneasy'' then ''yellow''
          else if s = ''troubled'' then ''orange1''
          else if s = ''warm'' then ''orange1''
          else if s = ''critical'' then ''red''
          else ''white'')"
  by (simp add: temp_style_table_def temp_colors_def)


text \<open>
  C1. The claim: each renderer colours the mood by resolving the mood string itself
  through the palette. \<^verbatim>\<open>render_log\<close> does; \<^verbatim>\<open>render_rich\<close> assigns
  \<^verbatim>\<open>mood_style = temp_style\<close>, so for every metadata the mood run carries the style of
  the temperature run. On the spec's scenario (temperature critical, mood cool) the styled
  renderer shows \<^verbatim>\<open>cool\<close> in red, where the palette gives cyan and the viewer shows cyan.
\<close>

theorem rich_mood_takes_temperature_style:
  "(case rich_header repr (metadata_json m) of
      Inl e \<Rightarrow> False
    | Inr h \<Rightarrow> content (h ! 5) = JStr (mood m) \<and> style (h ! 5) = style (h ! 3)) \<and>
   hd (fst (render_rich repr (document_json sample_document))) ! 5 =
     Span (JStr ''cool'') (Some (JStr ''red'')) \<and>
   dict_get temp_style_table (JStr ''cool'') ''white'' = Inr ''cyan'' \<and>
   map_option (\<lambda>info. info ! 5)
     (info_bar (fst (render_log repr ((init_app path h0)\<lparr>data := Some (document_json sample_document)\<rparr>)))) =
     Some (Span (JStr ''cool'') (Some (JStr ''cyan'')))"
  by (simp add: render_rich_def render_log_def rich_header_def info_text_def sample_document_def
      temp_style_table_def temp_colors_def split: prod.splits)

text \<open>
  C2. The claim: a non-zero exit status always fails the fetch with the standard-error
  text, whatever standard output holds. \<^verbatim>\<open>load_file\<close> does that; \<^verbatim>\<open>colorize_file\<close>
  never reads the return code: its result is the same for every return code, and with
  exit status 1 and standard output \<^verbatim>\<open>{}\<close> it returns whatever \<^verbatim>\<open>json.loads\<close> makes of
  \<^verbatim>\<open>{}\<close>.
\<close>

theorem colorize_file_ignores_returncode:
  "colorize_file (\<lambda>rq. Completed (res\<lparr>returncode := c\<rparr>)) loads install_root path =
     colorize_file (\<lambda>rq. Completed res) loads install_root path \<and>
   colorize_file (\<lambda>rq. Completed \<lparr>returncode = 1, stdout = ''{}'', stderr = ''boom''\<rparr>)
       loads install_root path =
     (case loads ''{}'' of Inl msg \<Rightarrow> Inl (JSONDecodeError msg) | Inr doc \<Rightarrow> Inr doc) \<and>
   notifications (load_file (\<lambda>rq. Completed \<lparr>returncode = 1, stdout = ''{}'', stderr = ''boom''\<rparr>)
       loads repr install_root (init_app path h0)) =
     [(Plain ''Error: boom'', Sev_error)]"
  by (simp add: colorize_file_def load_file_def str_find_def init_app_def)

text \<open>
  C4. The claim: when standard output holds no \<^verbatim>\<open>{\<close>, the diagnostic carries the raw
  standard-error text. \<^verbatim>\<open>colorize_file\<close> raises \<^verbatim>\<open>ValueError\<close> with that text;
  \<^verbatim>\<open>load_file\<close>, on exit status 0, notifies the fixed string
  \<^verbatim>\<open>No JSON output from colorhymn\<close> and drops standard error.
\<close>

theorem viewer_no_json_drops_stderr:
  "notifications (load_file
       (\<lambda>rq. Completed \<lparr>returncode = 0, stdout = ''Compiling 1 file (.ex)'',
                           stderr = ''warning: unused variable''\<rparr>)
       loads repr install_root (init_app path h0)) =
     [(Plain ''No JSON output from colorhymn'', Sev_error)] \<and>
   colorize_file
       (\<lambda>rq. Completed \<lparr>returncode = 0, stdout = ''Compiling 1 file (.ex)'',
                           stderr = ''warning: unused variable''\<rparr>)
       loads install_root path =
     Inl (ValueError ''No JSON output: warning: unused variable'')"
  by (simp add: colorize_file_def load_file_def str_find_def init_app_def)

text \<open>
  C7. The claim: every malformed response produces a notification in the viewer.
  \<^verbatim>\<open>load_file\<close> notifies every exception of \<^verbatim>\<open>render_log\<close> (an object without
  \<^verbatim>\<open>metadata\<close> gives \<^verbatim>\<open>Error: 'metadata'\<close>), but a response that parses to the empty
  object is falsy, so \<^verbatim>\<open>render_log\<close> returns at \<^verbatim>\<open>if not self.data\<close>: the state is the
  initial one with \<open>data\<close> set, nothing is rendered and nothing is notified. The static
  renderer reports the same response as \<^verbatim>\<open>Error: 'metadata'\<close> with exit code 1.
\<close>

theorem viewer_empty_object_is_silent:
  "load_file (\<lambda>rq. Completed \<lparr>returncode = 0, stdout = ''{}'', stderr = []\<rparr>) (\<lambda>s. Inr (JObj []))
       repr install_root (init_app path h0) =
     (init_app path h0)\<lparr>data := Some (JObj [])\<rparr> \<and>
   notifications (load_file (\<lambda>rq. Completed \<lparr>returncode = 0, stdout = ''{}'', stderr = []\<rparr>)
       (\<lambda>s. Inr (JObj [])) repr install_root (init_app path h0)) = [] \<and>
   notifications (load_file (\<lambda>rq. Completed \<lparr>returncode = 0, stdout = ''{}'', stderr = []\<rparr>)
       (\<lambda>s. Inr (JObj [(''data'', JNull)])) repr install_root (init_app path h0)) =
     [(WithExn ''Error: '' (KeyError ''metadata''), Sev_error)] \<and>
   main_rich True (\<lambda>rq. Completed \<lparr>returncode = 0, stdout = ''{}'', stderr = []\<rparr>)
       (\<lambda>s. Inr (JObj [])) repr install_root [''colorhymn_rich.py'', path] =
     \<lparr>console_out = [], stdout_out = [],
      stderr_out = [WithExn ''Error: '' (KeyError ''metadata'')], exit_code = 1\<rparr>"
  by (simp add: load_file_def render_log_def str_find_def init_app_def main_rich_def
      colorize_file_def render_rich_def)


text \<open>
  C8. Settled on the scroll methods as the spec describes them (Textual's own code is not
  under src/). With \<open>n\<close> rows mounted, height \<open>h\<close> and offset \<open>y\<close>, and
  \<open>hi = max 0 (n - h)\<close>: top sets the offset to 0, bottom to \<open>hi\<close>, line down and up
  to \<open>y + 1\<close> and \<open>y - 1\<close> clamped to \<open>[0, hi]\<close>, page down and up to \<open>y + h\<close> and
  \<open>y - h\<close> clamped to \<open>[0, hi]\<close>; every navigation action ends in \<open>[0, hi]\<close>, no action
  leaves the range or changes \<open>hi\<close>, and page down at \<open>hi\<close> stays at \<open>hi\<close>.
\<close>

theorem navigation_clamps:
  fixes st :: app
  defines "n \<equiv> length (rows st)"
  defines "h \<equiv> viewport_height (log_view st)"
  defines "y \<equiv> scroll_offset (log_view st)"
  defines "hi \<equiv> max_offset n (log_view st)"
  defines "offset_after \<equiv> \<lambda>a. scroll_offset (log_view (run_action a st))"
  shows
   "hi = max 0 (int n - h) \<and>
    offset_after Scroll_top = 0 \<and>
    offset_after Scroll_bottom = hi \<and>
    offset_after Scroll_down = max 0 (min hi (y + 1)) \<and>
    offset_after Scroll_up = max 0 (min hi (y - 1)) \<and>
    offset_after Page_down = max 0 (min hi (y + h)) \<and>
    offset_after Page_up = max 0 (min hi (y - h)) \<and>
    (\<forall>a. a \<noteq> Quit \<and> a \<noteq> Search \<longrightarrow> 0 \<le> offset_after a \<and> offset_after a \<le> hi) \<and>
    (\<forall>a. 0 \<le> y \<and> y \<le> hi \<longrightarrow> 0 \<le> offset_after a \<and> offset_after a \<le> hi) \<and>
    (\<forall>a. max_offset (length (rows (run_action a st))) (log_view (run_action a st)) = hi) \<and>
    (0 < h \<and> y = hi \<longrightarrow> offset_after Page_down = y)"
proof -
  have vals:
    "offset_after Scroll_top = 0"
    "offset_after Scroll_bottom = hi"
    "offset_after Scroll_down = max 0 (min hi (y + 1))"
    "offset_after Scroll_up = max 0 (min hi (y - 1))"
    "offset_after Page_down = max 0 (min hi (y + h))"
    "offset_after Page_up = max 0 (min hi (y - h))"
    "offset_after Quit = y" "offset_after Search = y"
    unfolding offset_after_def hi_def n_def h_def y_def
    by (simp_all add: nav_defs action_quit_def action_search_def notify_def)
  have hi: "hi = max 0 (int n - h)" "0 \<le> hi"
    unfolding hi_def h_def by (simp_all add: max_offset_def)
  have range: "0 \<le> offset_after a \<and> offset_after a \<le> hi" if "a \<noteq> Quit \<and> a \<noteq> Search" for a
    using that hi(2) by (cases a) (simp_all add: vals)
  have range': "0 \<le> offset_after a \<and> offset_after a \<le> hi" if "0 \<le> y \<and> y \<le> hi" for a
    using that hi(2) by (cases a) (simp_all add: vals)
  have same: "max_offset (length (rows (run_action a st))) (log_view (run_action a st)) = hi" for a
    unfolding hi_def n_def
    by (cases a) (simp_all add: nav_defs action_quit_def action_search_def notify_def max_offset_def)
  have page: "offset_after Page_down = y" if "0 < h \<and> y = hi"
    using that hi(2) by (simp add: vals)
  from vals hi range range' same page show ?thesis
    by blast
qed

theorem navigation_clamps_witness:
  "scroll_offset (log_view (run_action Scroll_bottom hundred_rows)) = 80 \<and>
   scroll_offset (log_view (run_action Page_down (run_action Scroll_bottom hundred_rows))) = 80 \<and>
   scroll_offset (log_view (run_action Scroll_down (run_action Scroll_bottom hundred_rows))) = 80 \<and>
   scroll_offset (log_view (run_action Scroll_up hundred_rows)) = 0 \<and>
   scroll_offset (log_view (run_action Page_up (run_action Scroll_bottom hundred_rows))) = 60"
  using navigation_clamps [of hundred_rows] navigation_clamps [of "run_action Scroll_bottom hundred_rows"]
  by (simp add: hundred_rows_def init_app_def max_offset_def action_scroll_bottom_def scroll_end_def)









text \<open>
  C5. For every document of the contract with colours of the form \<^verbatim>\<open>#RRGGBB\<close> and every
  line number \<open>i\<close> from 1 to the number of lines, \<^verbatim>\<open>render_ansi\<close> ends without exception
  and the string it prints for line \<open>i\<close> is \<open>ESC[2m\<close>, \<open>i\<close> padded on the left with spaces
  to five characters, \<open>ESC[0m\<close>, one space, then for each token in order
  \<open>ESC[38;2;R;G;Bm\<close>, the token's text, \<open>ESC[0m\<close>, where \<open>R\<close>, \<open>G\<close>, \<open>B\<close> are the
  decimal values of the three pairs of hexadecimal digits; a line without tokens prints the
  number prefix alone. As amended: when no token text of the line contains an ESC
  character, the escape-stripped row is the number, a space and the token texts in order.
\<close>

theorem raw_row_format:
  assumes hex: "\<forall>l\<in>set (doc_lines d). \<forall>t\<in>set l. is_hex_color (tok_color t)"
    and i: "1 \<le> i" "i \<le> length (doc_lines d)"
  shows "\<exists>header out. render_ansi repr (document_json d) = (header # out, None) \<and>
     length out = length (doc_lines d) \<and>
     out ! (i - 1) =
       ESC # ''[2m'' @ fmt_5d (int i) @ ESC # ''[0m '' @
       concat (map (\<lambda>t. ESC # ''[38;2;'' @ str_nat (hex_byte (tok_color t) 1) @ '';'' @
                        str_nat (hex_byte (tok_color t) 3) @ '';'' @
                        str_nat (hex_byte (tok_color t) 5) @ ''m'' @ tok_text t @ ESC # ''[0m'')
                 (doc_lines d ! (i - 1))) \<and>
     fmt_5d (int i) = replicate (5 - length (str_nat i)) CHR '' '' @ str_nat i \<and>
     (doc_lines d ! (i - 1) = [] \<longrightarrow> out ! (i - 1) = ESC # ''[2m'' @ fmt_5d (int i) @ ESC # ''[0m '') \<and>
     ((\<forall>t\<in>set (doc_lines d ! (i - 1)). ESC \<notin> set (tok_text t)) \<longrightarrow>
        strip_ansi (out ! (i - 1)) =
          fmt_5d (int i) @ '' '' @ concat (map tok_text (doc_lines d ! (i - 1))))"
proof -
  let ?l = "doc_lines d ! (i - 1)"
  obtain header where r: "render_ansi repr (document_json d) =
      (header # map (\<lambda>(i, l). raw_row i l) (py_enumerate 1 (doc_lines d)), None)"
    using render_ansi_contract [OF hex, of repr] by blast
  let ?out = "map (\<lambda>(i, l). raw_row i l) (py_enumerate 1 (doc_lines d))"
  have len: "length ?out = length (doc_lines d)"
    by simp
  have row: "?out ! (i - 1) = raw_row (int i) ?l"
    using i by (simp add: py_enumerate_nth)
  have shape: "raw_row (int i) ?l =
       ESC # ''[2m'' @ fmt_5d (int i) @ ESC # ''[0m '' @
       concat (map (\<lambda>t. ESC # ''[38;2;'' @ str_nat (hex_byte (tok_color t) 1) @ '';'' @
                        str_nat (hex_byte (tok_color t) 3) @ '';'' @
                        str_nat (hex_byte (tok_color t) 5) @ ''m'' @ tok_text t @ ESC # ''[0m'') ?l)"
    by (simp add: raw_row_def token_run_def [abs_def])
  have pad: "fmt_5d (int i) = replicate (5 - length (str_nat i)) CHR '' '' @ str_nat i"
    by (simp add: fmt_5d_def str_int_nat)
  have blank: "?out ! (i - 1) = ESC # ''[2m'' @ fmt_5d (int i) @ ESC # ''[0m ''" if "?l = []"
    using that unfolding row by (simp add: raw_row_def)
  have visible: "strip_ansi (?out ! (i - 1)) = fmt_5d (int i) @ '' '' @ concat (map tok_text ?l)"
    if "\<forall>t\<in>set ?l. ESC \<notin> set (tok_text t)"
    using that by (simp only: row strip_ansi_raw_row)
  show ?thesis
  proof (rule exI [of _ header], rule exI [of _ ?out], intro conjI impI)
    show "render_ansi repr (document_json d) = (header # ?out, None)"
      by (rule r)
    show "length ?out = length (doc_lines d)"
      by (rule len)
    show "?out ! (i - 1) =
       ESC # ''[2m'' @ fmt_5d (int i) @ ESC # ''[0m '' @
       concat (map (\<lambda>t. ESC # ''[38;2;'' @ str_nat (hex_byte (tok_color t) 1) @ '';'' @
                        str_nat (hex_byte (tok_color t) 3) @ '';'' @
                        str_nat (hex_byte (tok_color t) 5) @ ''m'' @ tok_text t @ ESC # ''[0m'') ?l)"
      using row shape by (rule trans)
    show "fmt_5d (int i) = replicate (5 - length (str_nat i)) CHR '' '' @ str_nat i"
      by (rule pad)
    show "?out ! (i - 1) = ESC # ''[2m'' @ fmt_5d (int i) @ ESC # ''[0m ''" if "?l = []"
      using that by (rule blank)
    show "strip_ansi (?out ! (i - 1)) = fmt_5d (int i) @ '' '' @ concat (map tok_text ?l)"
      if "\<forall>t\<in>set ?l. ESC \<notin> set (tok_text t)"
      using that by (rule visible)
  qed
qed


theorem raw_row_format_witness:
  "snd (render_ansi (\<lambda>v. []) (document_json sample_document)) = None \<and>
   length (tl (fst (render_ansi (\<lambda>v. []) (document_json sample_document)))) = 3 \<and>
   tl (fst (render_ansi (\<lambda>v. []) (document_json sample_document))) ! 1 =
     ESC # ''[2m    2'' @ ESC # ''[0m '' @ ESC # ''[38;2;0;255;0mgreen'' @ ESC # ''[0m'' \<and>
   strip_ansi (tl (fst (render_ansi (\<lambda>v. []) (document_json sample_document))) ! 1) = ''    2 green'' \<and>
   tl (fst (render_ansi (\<lambda>v. []) (document_json eight_line_document))) ! 4 =
     ESC # ''[2m    5'' @ ESC # ''[0m '' \<and>
   strip_ansi (tl (fst (render_ansi (\<lambda>v. []) (document_json eight_line_document))) ! 4) = ''    5 ''"
proof -
  have hex: "\<forall>l\<in>set (doc_lines sample_document). \<forall>t\<in>set l. is_hex_color (tok_color t)"
    by (auto simp: sample_document_def hex_val_def)
  have hex8: "\<forall>l\<in>set (doc_lines eight_line_document). \<forall>t\<in>set l. is_hex_color (tok_color t)"
    by (auto simp: eight_line_document_def hex_val_def)
  have l2: "doc_lines sample_document ! (2 - 1) =
      [\<lparr>tok_kind = ''word'', tok_text = ''green'', tok_color = ''#00FF00''\<rparr>]"
    and n: "(1::nat) \<le> 2" "2 \<le> length (doc_lines sample_document)"
    and len: "length (doc_lines sample_document) = 3"
    by (simp_all add: sample_document_def)
  have l5: "doc_lines eight_line_document ! (5 - 1) = []"
    and n8: "(1::nat) \<le> 5" "5 \<le> length (doc_lines eight_line_document)"
    by (simp_all add: eight_line_document_def nth_append)
  have vals: "fmt_5d 2 = ''    2''" "fmt_5d 5 = ''    5''"
    "hex_byte ''#00FF00'' (Suc 0) = 0" "hex_byte ''#00FF00'' 3 = 255" "hex_byte ''#00FF00'' 5 = 0"
    "str_nat 0 = ''0''" "str_nat 255 = ''255''"
    by code_simp+
  from raw_row_format [OF hex n, of "\<lambda>v. []", unfolded l2] obtain header out where
    r: "render_ansi (\<lambda>v. []) (document_json sample_document) = (header # out, None)"
    and "length out = length (doc_lines sample_document)"
    and "out ! (2 - 1) =
       ESC # ''[2m'' @ fmt_5d (int 2) @ ESC # ''[0m '' @
       concat (map (\<lambda>t. ESC # ''[38;2;'' @ str_nat (hex_byte (tok_color t) 1) @ '';'' @
                        str_nat (hex_byte (tok_color t) 3) @ '';'' @
                        str_nat (hex_byte (tok_color t) 5) @ ''m'' @ tok_text t @ ESC # ''[0m'')
                 [\<lparr>tok_kind = ''word'', tok_text = ''green'', tok_color = ''#00FF00''\<rparr>])"
    and "(\<forall>t\<in>set [\<lparr>tok_kind = ''word'', tok_text = ''green'', tok_color = ''#00FF00''\<rparr>].
            ESC \<notin> set (tok_text t)) \<longrightarrow>
         strip_ansi (out ! (2 - 1)) = fmt_5d (int 2) @ '' '' @
           concat (map tok_text [\<lparr>tok_kind = ''word'', tok_text = ''green'', tok_color = ''#00FF00''\<rparr>])"
    by blast
  then have out: "length out = 3"
    "out ! 1 = ESC # ''[2m    2'' @ ESC # ''[0m '' @ ESC # ''[38;2;0;255;0mgreen'' @ ESC # ''[0m''"
    "strip_ansi (out ! 1) = ''    2 green''"
    by (simp_all add: len vals)
  from raw_row_format [OF hex8 n8, of "\<lambda>v. []", unfolded l5] obtain header' out' where
    r8: "render_ansi (\<lambda>v. []) (document_json eight_line_document) = (header' # out', None)"
    and out': "out' ! 4 = ESC # ''[2m    5'' @ ESC # ''[0m ''" "strip_ansi (out' ! 4) = ''    5 ''"
    by (auto simp: vals)
  show ?thesis
    unfolding r r8 using out out' by simp
qed


text \<open>
  The claim states the last part for every document. The renderer writes token text as it
  is, so an escape sequence inside a token text is stripped with the renderer's own: for
  the one-token line with text \<open>ESC[31mX\<close> the visible text is \<^verbatim>\<open>    1 X\<close>, not the
  number prefix followed by the token text.
\<close>

theorem escape_in_token_text_counterexample:
  "is_hex_color (tok_color (hd (hd (doc_lines escape_document)))) \<and>
   snd (render_ansi (\<lambda>v. []) (document_json escape_document)) = None \<and>
   strip_ansi (fst (render_ansi (\<lambda>v. []) (document_json escape_document)) ! 1) = ''    1 X'' \<and>
   fmt_5d 1 @ '' '' @ concat (map tok_text (doc_lines escape_document ! 0)) =
     ''    1 '' @ ESC # ''[31mX'' \<and>
   strip_ansi (fst (render_ansi (\<lambda>v. []) (document_json escape_document)) ! 1) \<noteq>
     fmt_5d 1 @ '' '' @ concat (map tok_text (doc_lines escape_document ! 0))"
  by code_simp

text \<open>
  C10. Rendering raises on tokens outside the contract. Whenever some line of the document
  holds a token that is a list of other than three elements, \<^verbatim>\<open>render_rich\<close>,
  \<^verbatim>\<open>render_ansi\<close> and \<^verbatim>\<open>render_log\<close> all end in an exception, having emitted fewer rows
  than there are lines, and \<^verbatim>\<open>main\<close> of the static renderer prints \<^verbatim>\<open>Error: ...\<close> on
  standard error and exits with code 1. In the raw path a colour that is not hexadecimal
  does the same: for the token colour \<^verbatim>\<open>#GG0000\<close>, \<^verbatim>\<open>int("GG", 16)\<close> raises
  \<^verbatim>\<open>ValueError\<close> after the header alone was printed, and the exit code is 1.
\<close>

theorem malformed_token_raises:
  assumes lines: "subscript doc ''lines'' = Inr (JArr ls)"
    and l: "JArr ts \<in> set ls" and t: "JArr xs \<in> set ts" and n: "length xs \<noteq> 3"
  shows
   "snd (render_rich repr doc) \<noteq> None \<and> length (fst (render_rich repr doc)) < 2 + length ls \<and>
    snd (render_ansi repr doc) \<noteq> None \<and> length (fst (render_ansi repr doc)) < 1 + length ls \<and>
    snd (render_log repr (st\<lparr>data := Some doc\<rparr>)) \<noteq> None \<and>
    length (rows (fst (render_log repr (st\<lparr>data := Some doc\<rparr>)))) < length (rows st) + length ls \<and>
    (2 \<le> length argv \<and> colorize_file run loads install_root (argv ! 1) = Inr doc \<longrightarrow>
       exit_code (main_rich available run loads repr install_root argv) = 1 \<and>
       (\<exists>e. last (stderr_out (main_rich available run loads repr install_root argv)) =
            WithExn ''Error: '' e)) \<and>
    snd (render_ansi repr bad_color_doc) = Some (InvalidLiteral ''GG'') \<and>
    length (fst (render_ansi repr bad_color_doc)) = 1 \<and>
    exit_code (main_rich False (\<lambda>rq. Completed \<lparr>returncode = 0, stdout = ''{}'', stderr = []\<rparr>)
       (\<lambda>s. Inr bad_color_doc) repr install_root [''colorhymn_rich.py'', ''app.log'']) = 1"
proof -
  have rich_loop: "snd (for_each_line rich_line 1 ls) \<noteq> None \<and>
      length (fst (for_each_line rich_line 1 ls)) < length ls"
    using l line_raises(1) [OF t n] by (rule for_each_line_raises)
  have viewer_loop: "snd (for_each_line viewer_line 1 ls) \<noteq> None \<and>
      length (fst (for_each_line viewer_line 1 ls)) < length ls"
    using l line_raises(2) [OF t n] by (rule for_each_line_raises)
  have ansi_loop: "snd (for_each_line (ansi_line repr) 1 ls) \<noteq> None \<and>
      length (fst (for_each_line (ansi_line repr) 1 ls)) < length ls"
    using l line_raises(3) [OF t n] by (rule for_each_line_raises)
  have rich: "snd (render_rich repr doc) \<noteq> None \<and> length (fst (render_rich repr doc)) < 2 + length ls"
    using rich_loop by (auto simp: render_rich_def lines split: sum.splits prod.splits)
  have ansi: "snd (render_ansi repr doc) \<noteq> None \<and> length (fst (render_ansi repr doc)) < 1 + length ls"
    using ansi_loop by (auto simp: render_ansi_def lines split: sum.splits prod.splits)
  have viewer: "snd (render_log repr (st\<lparr>data := Some doc\<rparr>)) \<noteq> None \<and>
      length (rows (fst (render_log repr (st\<lparr>data := Some doc\<rparr>)))) < length (rows st) + length ls"
    using viewer_loop l subscript_truthy [OF lines]
    by (auto simp: render_log_def lines Let_def split: sum.splits prod.splits)
  have main: "exit_code (main_rich available run loads repr install_root argv) = 1 \<and>
       (\<exists>e. last (stderr_out (main_rich available run loads repr install_root argv)) =
            WithExn ''Error: '' e)"
    if "2 \<le> length argv \<and> colorize_file run loads install_root (argv ! 1) = Inr doc"
    using that rich ansi
    by (cases "render_rich repr doc"; cases "render_ansi repr doc")
       (auto simp: main_rich_def split: option.splits)
  have colour: "snd (render_ansi repr bad_color_doc) = Some (InvalidLiteral ''GG'')"
    "length (fst (render_ansi repr bad_color_doc)) = 1"
    by (simp_all add: render_ansi_def bad_color_doc_def ansi_header_def ansi_line_def
        ansi_token_def unpack3_def py_int16_def strip_sign_def strip_0x_def hex_val_def is_space_def)
  then have colour_main: "exit_code (main_rich False
       (\<lambda>rq. Completed \<lparr>returncode = 0, stdout = ''{}'', stderr = []\<rparr>)
       (\<lambda>s. Inr bad_color_doc) repr install_root [''colorhymn_rich.py'', ''app.log'']) = 1"
    by (cases "render_ansi repr bad_color_doc")
       (simp add: main_rich_def colorize_file_def str_find_def)
  from rich ansi viewer main colour colour_main show ?thesis
    by blast
qed


theorem malformed_token_raises_witness:
  "subscript two_element_doc ''lines'' =
     Inr (JArr [JArr [JArr [JStr ''word'', JStr ''red'', JStr ''#FF0000'']],
                JArr [JArr [JStr ''green'', JStr ''#00FF00'']]]) \<and>
   length [JStr ''green'', JStr ''#00FF00''] \<noteq> 3 \<and>
   snd (render_rich (\<lambda>v. []) two_element_doc) = Some (UnpackError 2) \<and>
   length (fst (render_rich (\<lambda>v. []) two_element_doc)) < 2 + 2 \<and>
   snd (render_ansi (\<lambda>v. []) two_element_doc) = Some (UnpackError 2) \<and>
   length (fst (render_ansi (\<lambda>v. []) two_element_doc)) < 1 + 2 \<and>
   snd (render_log (\<lambda>v. []) ((init_app ''app.log'' 20)\<lparr>data := Some two_element_doc\<rparr>)) =
     Some (UnpackError 2) \<and>
   length (rows (fst (render_log (\<lambda>v. []) ((init_app ''app.log'' 20)\<lparr>data := Some two_element_doc\<rparr>)))) < 2 \<and>
   exit_code (main_rich True (\<lambda>rq. Completed \<lparr>returncode = 0, stdout = ''{}'', stderr = []\<rparr>)
       (\<lambda>s. Inr two_element_doc) (\<lambda>v. []) ''/opt/colorhymn'' [''colorhymn_rich.py'', ''app.log'']) = 1 \<and>
   stderr_out (main_rich True (\<lambda>rq. Completed \<lparr>returncode = 0, stdout = ''{}'', stderr = []\<rparr>)
       (\<lambda>s. Inr two_element_doc) (\<lambda>v. []) ''/opt/colorhymn'' [''colorhymn_rich.py'', ''app.log'']) =
     [WithExn ''Error: '' (UnpackError 2)]"
proof -
  let ?ts = "[JArr [JStr ''green'', JStr ''#00FF00'']]"
  let ?ls = "[JArr [JArr [JStr ''word'', JStr ''red'', JStr ''#FF0000'']], JArr ?ts]"
  let ?run = "\<lambda>rq :: request. Completed \<lparr>returncode = 0, stdout = ''{}'', stderr = []\<rparr>"
  let ?loads = "\<lambda>s :: string. Inr two_element_doc :: string + json"
  let ?argv = "[''colorhymn_rich.py'', ''app.log'']"
  have lines: "subscript two_element_doc ''lines'' = Inr (JArr ?ls)"
    by (simp add: two_element_doc_def)
  have l: "JArr ?ts \<in> set ?ls" and t: "JArr [JStr ''green'', JStr ''#00FF00''] \<in> set ?ts"
    and n: "length [JStr ''green'', JStr ''#00FF00''] \<noteq> 3"
    by simp_all
  have fetch: "2 \<le> length ?argv \<and>
      colorize_file ?run ?loads ''/opt/colorhymn'' (?argv ! 1) = Inr two_element_doc"
    by (simp add: colorize_file_def str_find_def)
  note inst = malformed_token_raises [OF lines l t n, of "\<lambda>v. []" "init_app ''app.log'' 20"
      ?argv ?run ?loads "''/opt/colorhymn''" True]
  have which: "snd (render_rich (\<lambda>v. []) two_element_doc) = Some (UnpackError 2)"
    "snd (render_ansi (\<lambda>v. []) two_element_doc) = Some (UnpackError 2)"
    "snd (render_log (\<lambda>v. []) ((init_app ''app.log'' 20)\<lparr>data := Some two_element_doc\<rparr>)) =
       Some (UnpackError 2)"
    by code_simp+
  have err: "stderr_out (main_rich True ?run ?loads (\<lambda>v. []) ''/opt/colorhymn'' ?argv) =
     [WithExn ''Error: '' (UnpackError 2)]"
    using which(1) fetch
    by (cases "render_rich (\<lambda>v. []) two_element_doc") (simp add: main_rich_def)
  from inst fetch lines n which err show ?thesis
    by (simp add: init_app_def)
qed


end
